theory Spec2Isabelle
  imports Complex_Main "HOL-Library.Word"
begin

section \<open>JavaScript values used by the assessment frontend\<close>

text \<open>
  A JavaScript string is a sequence of UTF-16 code units. \<open>ascii\<close> turns a literal
  of the source into that representation.
\<close>

type_synonym js_string = "16 word list"

definition ascii :: "string \<Rightarrow> js_string" where
  "ascii s = map of_char s"

text \<open>A string is truthy when it is not empty; an absent value (\<open>undefined\<close>, \<open>null\<close>) is falsy.\<close>

definition truthy :: "js_string option \<Rightarrow> bool" where
  "truthy v = (case v of None \<Rightarrow> False | Some s \<Rightarrow> s \<noteq> [])"

text \<open>
  \<open>String.prototype.trim\<close> removes the code units of ECMAScript's WhiteSpace and
  LineTerminator productions from both ends.
\<close>

definition is_whitespace :: "16 word \<Rightarrow> bool" where
  "is_whitespace c \<longleftrightarrow>
     c = 0x9 \<or> c = 0xA \<or> c = 0xB \<or> c = 0xC \<or> c = 0xD \<or> c = 0x20 \<or> c = 0xA0
     \<or> c = 0x1680 \<or> (0x2000 \<le> c \<and> c \<le> 0x200A) \<or> c = 0x2028 \<or> c = 0x2029
     \<or> c = 0x202F \<or> c = 0x205F \<or> c = 0x3000 \<or> c = 0xFEFF"

definition trim :: "js_string \<Rightarrow> js_string" where
  "trim s = rev (dropWhile is_whitespace (rev (dropWhile is_whitespace s)))"

text \<open>
  \<open>parseInt(string)\<close> with no radix: leading white space is skipped, a sign is read,
  a \<open>0x\<close>/\<open>0X\<close> prefix selects radix 16, and the longest prefix of digits of the radix is
  the value; with no digit the result is \<open>NaN\<close>. \<open>Num n\<close> stands for the number whose
  mathematical value is \<open>n\<close> (the double nearest to it, which is \<open>n\<close> itself below \<open>2^53\<close>).
\<close>

datatype js_number = NaN | Num int

definition digit_value :: "16 word \<Rightarrow> nat option" where
  "digit_value c =
     (if 0x30 \<le> c \<and> c \<le> 0x39 then Some (unat c - 0x30)
      else if 0x61 \<le> c \<and> c \<le> 0x7A then Some (unat c - 0x61 + 10)
      else if 0x41 \<le> c \<and> c \<le> 0x5A then Some (unat c - 0x41 + 10)
      else None)"

definition is_digit :: "nat \<Rightarrow> 16 word \<Rightarrow> bool" where
  "is_digit R c = (case digit_value c of None \<Rightarrow> False | Some d \<Rightarrow> d < R)"

definition digits_value :: "nat \<Rightarrow> js_string \<Rightarrow> nat" where
  "digits_value R Z = foldl (\<lambda>acc c. acc * R + the (digit_value c)) 0 Z"

definition parseInt :: "js_string \<Rightarrow> js_number" where
  "parseInt inputString =
     (let S = dropWhile is_whitespace inputString;
          sign = (if S \<noteq> [] \<and> hd S = 0x2D then - 1 else (1::int));
          S1 = (if S \<noteq> [] \<and> (hd S = 0x2B \<or> hd S = 0x2D) then tl S else S);
          hex = (take 2 S1 = ascii ''0x'' \<or> take 2 S1 = ascii ''0X'');
          R = (if hex then 16 else 10);
          S2 = (if hex then drop 2 S1 else S1);
          Z = takeWhile (is_digit R) S2
      in if Z = [] then NaN else Num (sign * int (digits_value R Z)))"

subsection \<open>Double arithmetic of the progress display\<close>

text \<open>
  The progress percentage is computed in IEEE-754 binary64. A non-negative finite double is
  kept as an exact fraction \<open>(n, d)\<close> with \<open>0 < d\<close>; \<open>to_double\<close> rounds a positive fraction
  to the nearest double with a 53-bit mantissa, ties to even (the values that occur here
  are far from the subnormal and overflow ranges).
\<close>

type_synonym frac = "int \<times> int"

function bitlen :: "int \<Rightarrow> nat" where
  "bitlen n = (if n \<le> 0 then 0 else Suc (bitlen (n div 2)))"
  by pat_completeness auto
termination
  by (relation "measure nat") auto

declare bitlen.simps [simp del]

definition round_half_even :: "int \<Rightarrow> int \<Rightarrow> int" where
  "round_half_even n d =
     (let q = n div d; r = n mod d in
      if 2 * r < d then q else if d < 2 * r then q + 1 else if even q then q else q + 1)"

definition binade :: "int \<Rightarrow> int \<Rightarrow> int" where
  "binade n d =
     (let k = int (bitlen n) - int (bitlen d) in
      if (if 0 \<le> k then d * 2 ^ nat k \<le> n else d \<le> n * 2 ^ nat (- k)) then k else k - 1)"

definition to_double :: "frac \<Rightarrow> frac" where
  "to_double x =
     (let n = fst x; d = snd x in
      if n = 0 then (0, 1)
      else let s = 52 - binade n d in
        if 0 \<le> s then (round_half_even (n * 2 ^ nat s) d, 2 ^ nat s)
        else (round_half_even n (d * 2 ^ nat (- s)) * 2 ^ nat (- s), 1))"

definition js_divide :: "frac \<Rightarrow> frac \<Rightarrow> frac" where
  "js_divide x y = to_double (fst x * snd y, snd x * fst y)"

definition js_times :: "frac \<Rightarrow> frac \<Rightarrow> frac" where
  "js_times x y = to_double (fst x * fst y, snd x * snd y)"

text \<open>\<open>Math.round\<close>: the nearest integer, a tie going towards \<open>+\<infinity>\<close>.\<close>

definition Math_round :: "frac \<Rightarrow> int" where
  "Math_round x = (2 * fst x + snd x) div (2 * snd x)"

text \<open>\<^verbatim>\<open>Math.round((currentQuestionIdx / 21) * 100)\<close>\<close>

definition progress_percentage :: "nat \<Rightarrow> int" where
  "progress_percentage currentQuestionIdx =
     Math_round (js_times (js_divide (int currentQuestionIdx, 1) (21, 1)) (100, 1))"

text \<open>
  The specification's completion percentage: answered count over total question count,
  scaled to 100 and rounded to the nearest integer, in exact arithmetic.
\<close>

definition completion_percentage_spec :: "nat \<Rightarrow> nat \<Rightarrow> int" where
  "completion_percentage_spec answered_count total_count =
     round ((of_nat answered_count :: rat) / of_nat total_count * 100)"

text \<open>\<^verbatim>\<open>const isCompleted = i < currentQuestionIdx; const isCurrent = i === currentQuestionIdx;\<close>\<close>

definition isCompleted :: "nat \<Rightarrow> nat \<Rightarrow> bool" where
  "isCompleted i currentQuestionIdx \<longleftrightarrow> i < currentQuestionIdx"

definition isCurrent :: "nat \<Rightarrow> nat \<Rightarrow> bool" where
  "isCurrent i currentQuestionIdx \<longleftrightarrow> i = currentQuestionIdx"

section \<open>The API client (lib/api.ts)\<close>

text \<open>
  A value that a call throws: an \<open>Error\<close> instance with its message (\<open>TypeError\<close> and
  \<open>SyntaxError\<close> are such instances), or some other thrown value.
\<close>

datatype thrown = Error_obj js_string | Other_thrown

text \<open>
  What \<open>fetch\<close> gives back: the promise rejects, or it resolves with a response whose
  \<open>ok\<close> flag is read and whose \<open>json()\<close> either rejects or yields the parsed body.
\<close>

record 'a response =
  ok :: bool
  json :: "thrown + 'a"

type_synonym 'a fetch_result = "thrown + 'a response"

record BusinessInfo =
  name :: js_string
  industry :: js_string
  size' :: js_string
  location :: js_string

record question_ref =
  section_id :: js_string
  question_id :: js_string

record answer_data = question_ref +
  score :: js_number

record QuestionData = question_ref +
  section_name :: js_string
  question :: js_string
  description :: "js_string option"
  scoring_rubric :: "(js_string \<times> js_string) list"

record answer_reply =
  success :: bool
  error :: "js_string option"

record start_reply = answer_reply +
  assessment_id :: "js_string option"

text \<open>The declared result of \<open>getNextQuestion\<close>: \<^verbatim>\<open>QuestionData | { completed: boolean }\<close>.\<close>

datatype next_reply = Question QuestionData | Completed bool

datatype http_method = GET | POST

datatype request_body =
    No_body
  | Json_business_info BusinessInfo
  | Json_answer answer_data
  | Json_guidance js_string js_string js_string

record request =
  url :: js_string
  req_method :: http_method
  content_type_json :: bool
  body :: request_body

text \<open>
  The part all four wrappers share: \<^verbatim>\<open>if (!res.ok) throw new Error(msg); return res.json();\<close>
  after \<open>await fetch(...)\<close>.
\<close>

definition settle :: "js_string \<Rightarrow> 'a fetch_result \<Rightarrow> thrown + 'a" where
  "settle msg r =
     (case r of
        Inl err \<Rightarrow> Inl err
      | Inr res \<Rightarrow> if \<not> ok res then Inl (Error_obj msg) else json res)"

definition startAssessment_request :: "BusinessInfo \<Rightarrow> request" where
  "startAssessment_request businessInfo =
     \<lparr>url = ascii ''/api/assessment/start'', req_method = POST, content_type_json = True,
      body = Json_business_info businessInfo\<rparr>"

definition startAssessment ::
  "(request \<Rightarrow> start_reply fetch_result) \<Rightarrow> BusinessInfo \<Rightarrow> thrown + start_reply" where
  "startAssessment fetch businessInfo =
     settle (ascii ''Failed to start assessment'') (fetch (startAssessment_request businessInfo))"

definition getNextQuestion_request :: "js_string \<Rightarrow> request" where
  "getNextQuestion_request assessmentId =
     \<lparr>url = ascii ''/api/assessment/'' @ assessmentId @ ascii ''/next'', req_method = GET,
      content_type_json = False, body = No_body\<rparr>"

definition getNextQuestion ::
  "(request \<Rightarrow> next_reply fetch_result) \<Rightarrow> js_string \<Rightarrow> thrown + next_reply" where
  "getNextQuestion fetch assessmentId =
     settle (ascii ''Failed to fetch next question'') (fetch (getNextQuestion_request assessmentId))"

definition submitAnswer_request :: "js_string \<Rightarrow> answer_data \<Rightarrow> request" where
  "submitAnswer_request assessmentId data =
     \<lparr>url = ascii ''/api/assessment/'' @ assessmentId @ ascii ''/answer'', req_method = POST,
      content_type_json = True, body = Json_answer data\<rparr>"

definition submitAnswer ::
  "(request \<Rightarrow> answer_reply fetch_result) \<Rightarrow> js_string \<Rightarrow> answer_data \<Rightarrow> thrown + answer_reply" where
  "submitAnswer fetch assessmentId data =
     settle (ascii ''Failed to submit answer'') (fetch (submitAnswer_request assessmentId data))"

text \<open>The parameter \<open>section\<close> defaults to the empty string when it is left out.\<close>

definition getAssessmentGuidance_request ::
  "js_string \<Rightarrow> js_string \<Rightarrow> js_string \<Rightarrow> js_string option \<Rightarrow> request" where
  "getAssessmentGuidance_request assessmentId questionId userMessage section =
     \<lparr>url = ascii ''/api/assessment/'' @ assessmentId @ ascii ''/guidance'', req_method = POST,
      content_type_json = True,
      body = Json_guidance questionId userMessage (case section of None \<Rightarrow> [] | Some s \<Rightarrow> s)\<rparr>"

definition getAssessmentGuidance ::
  "(request \<Rightarrow> 'g fetch_result) \<Rightarrow> js_string \<Rightarrow> js_string \<Rightarrow> js_string \<Rightarrow> js_string option
     \<Rightarrow> thrown + 'g" where
  "getAssessmentGuidance fetch assessmentId questionId userMessage section =
     settle (ascii ''Failed to get guidance'')
       (fetch (getAssessmentGuidance_request assessmentId questionId userMessage section))"

section \<open>The assessment page (AssessmentPage)\<close>

text \<open>
  The component's state, one field per \<open>useState\<close> that the start form, the answer buttons
  and the progress display read or write. (The chat panel's three state variables are
  read and written by the chat handler alone and are left out.) \<open>questionData\<close> holds
  whatever \<open>getNextQuestion\<close> returned when it was stored, \<open>null\<close> being \<open>None\<close>.
\<close>

record page =
  businessInfo :: BusinessInfo
  currentQuestionIdx :: nat
  showQuestions :: bool
  questionData :: "next_reply option"
  answerLoading :: bool
  loading :: bool
  assessmentId :: "js_string option"
  error' :: "js_string option"

definition initial_page :: page where
  "initial_page =
     \<lparr>businessInfo = \<lparr>name = [], industry = [], size' = [], location = []\<rparr>,
      currentQuestionIdx = 0, showQuestions = False, questionData = None,
      answerLoading = False, loading = False, assessmentId = None, error' = None\<rparr>"

text \<open>\<^verbatim>\<open>'completed' in q && q.completed\<close> and \<^verbatim>\<open>'question' in nextQ\<close>\<close>

definition completed_signal :: "next_reply \<Rightarrow> bool" where
  "completed_signal q = (case q of Completed b \<Rightarrow> b | Question _ \<Rightarrow> False)"

definition has_question :: "next_reply \<Rightarrow> bool" where
  "has_question q = (case q of Completed _ \<Rightarrow> False | Question _ \<Rightarrow> True)"

subsection \<open>The start form's \<open>onSubmit\<close>\<close>

text \<open>
  The handler is cut at its two \<open>await\<close>s. \<open>onSubmit_begin\<close> runs up to the call of
  \<open>startAssessment\<close> and returns the argument of that call; \<open>onSubmit_started\<close> runs from
  the result of \<open>startAssessment\<close> up to the call of \<open>getNextQuestion\<close> (its second
  component is the argument of that call, \<open>None\<close> when the handler has ended);
  \<open>onSubmit_fetched\<close> runs from the result of \<open>getNextQuestion\<close> to the end. The
  \<open>catch\<close> and \<open>finally\<close> blocks are part of each piece that can end the handler.
\<close>

definition cleanBusinessInfo :: "BusinessInfo \<Rightarrow> BusinessInfo" where
  "cleanBusinessInfo b = b\<lparr>industry := trim (industry b)\<rparr>"

definition onSubmit_begin :: "page \<Rightarrow> page \<times> BusinessInfo" where
  "onSubmit_begin p = (p\<lparr>loading := True, error' := None\<rparr>, cleanBusinessInfo (businessInfo p))"

text \<open>\<^verbatim>\<open>err instanceof Error ? err.message : "Failed to start assessment"\<close>\<close>

definition errorMessage :: "thrown \<Rightarrow> js_string" where
  "errorMessage err =
     (case err of Error_obj m \<Rightarrow> m | Other_thrown \<Rightarrow> ascii ''Failed to start assessment'')"

definition onSubmit_started :: "page \<Rightarrow> thrown + start_reply \<Rightarrow> page \<times> js_string option" where
  "onSubmit_started p r =
     (case r of
        Inl err \<Rightarrow> (p\<lparr>error' := Some (errorMessage err), loading := False\<rparr>, None)
      | Inr res \<Rightarrow>
          if \<not> success res \<or> \<not> truthy (assessment_id res)
          then (p\<lparr>error' := Some (if truthy (error res) then the (error res)
                                   else ascii ''Failed to start assessment''),
                  loading := False\<rparr>, None)
          else (p\<lparr>assessmentId := assessment_id res, showQuestions := True\<rparr>, assessment_id res))"

definition onSubmit_fetched :: "page \<Rightarrow> thrown + next_reply \<Rightarrow> page" where
  "onSubmit_fetched p r =
     (case r of
        Inl err \<Rightarrow> p\<lparr>error' := Some (errorMessage err), loading := False\<rparr>
      | Inr q \<Rightarrow>
          p\<lparr>questionData := (if completed_signal q then None else Some q),
            currentQuestionIdx := 0, loading := False\<rparr>)"

subsection \<open>The answer buttons and their \<open>onClick\<close>\<close>

text \<open>
  The centre column is rendered when \<^verbatim>\<open>showQuestions && questionData\<close>; it shows one button
  per entry of \<open>questionData.scoring_rubric\<close> (the sort before \<open>map\<close> only orders them), and
  every button carries \<^verbatim>\<open>disabled={answerLoading}\<close>. A stored \<^verbatim>\<open>{ completed: false }\<close> has no
  \<open>scoring_rubric\<close>, so it gives no button.
\<close>

definition question_shown :: "page \<Rightarrow> bool" where
  "question_shown p \<longleftrightarrow> showQuestions p \<and> questionData p \<noteq> None"

definition answer_buttons :: "page \<Rightarrow> js_string list" where
  "answer_buttons p =
     (if showQuestions p then
        (case questionData p of
           Some (Question q) \<Rightarrow> map fst (scoring_rubric q)
         | _ \<Rightarrow> [])
      else [])"

definition button_enabled :: "page \<Rightarrow> js_string \<Rightarrow> bool" where
  "button_enabled p score_key \<longleftrightarrow> score_key \<in> set (answer_buttons p) \<and> \<not> answerLoading p"

text \<open>
  The click handler is a closure over the \<open>assessmentId\<close> and the \<open>questionData\<close> of the
  render that made the button, and over the entry's key \<open>score\<close>. \<open>onClick_begin\<close> runs up
  to the call of \<open>submitAnswer\<close> and returns the arguments of that call (\<open>None\<close> when the
  guard returned); \<open>onClick_submitted\<close> runs from the result of \<open>submitAnswer\<close> up to the
  call of \<open>getNextQuestion\<close> (its second component tells whether that call is made);
  \<open>onClick_fetched\<close> runs from the result of \<open>getNextQuestion\<close> to the end.
\<close>

definition onClick_begin ::
  "js_string option \<Rightarrow> QuestionData \<Rightarrow> js_string \<Rightarrow> page \<Rightarrow> page \<times> (js_string \<times> answer_data) option" where
  "onClick_begin assessmentId_c questionData_c score_key p =
     (if \<not> truthy assessmentId_c then (p, None)
      else (p\<lparr>answerLoading := True\<rparr>,
            Some (the assessmentId_c,
                  \<lparr>section_id = section_id questionData_c,
                   question_id = question_id questionData_c,
                   score = parseInt score_key\<rparr>)))"

definition onClick_submitted :: "page \<Rightarrow> thrown + answer_reply \<Rightarrow> page \<times> bool" where
  "onClick_submitted p r =
     (case r of
        Inl err \<Rightarrow> (p\<lparr>answerLoading := False\<rparr>, False)
      | Inr res \<Rightarrow> if success res then (p, True) else (p\<lparr>answerLoading := False\<rparr>, False))"

definition onClick_fetched :: "page \<Rightarrow> thrown + next_reply \<Rightarrow> page" where
  "onClick_fetched p r =
     (case r of
        Inl err \<Rightarrow> p\<lparr>answerLoading := False\<rparr>
      | Inr nextQ \<Rightarrow>
          if completed_signal nextQ then p\<lparr>questionData := None, answerLoading := False\<rparr>
          else if has_question nextQ
          then p\<lparr>questionData := Some nextQ, currentQuestionIdx := currentQuestionIdx p + 1,
                 answerLoading := False\<rparr>
          else p\<lparr>answerLoading := False\<rparr>)"

subsection \<open>Events and runs\<close>

text \<open>
  A configuration is the page state together with the handlers that are suspended at an
  \<open>await\<close>, each with the arguments of the call it waits for. An event is a user action
  or the settling of one pending call with what \<open>fetch\<close> gave back. \<open>fire\<close> is \<open>None\<close> when
  the event cannot happen: the control is disabled or not rendered, or no such call is
  pending. The render is taken to be up to date when an event fires. The four \<open>Set\<close> events
  are the \<open>onChange\<close> and \<open>onValueChange\<close> of the form's controls; the browser's check of
  the \<open>required\<close> attributes is not modelled, so the form can be submitted with any
  profile whenever its button is enabled.
\<close>

datatype task =
    Awaiting_start BusinessInfo
  | Awaiting_first_question js_string
  | Awaiting_submit js_string answer_data
  | Awaiting_next_question js_string

record config =
  page :: page
  tasks :: "task list"

datatype event =
    Set_name js_string
  | Set_industry js_string
  | Set_size js_string
  | Set_location js_string
  | Submit_form
  | Start_settles BusinessInfo "start_reply fetch_result"
  | First_question_settles js_string "next_reply fetch_result"
  | Click js_string
  | Submit_settles js_string answer_data "answer_reply fetch_result"
  | Next_question_settles js_string "next_reply fetch_result"

definition initial_config :: config where
  "initial_config = \<lparr>page = initial_page, tasks = []\<rparr>"

definition settle_task :: "task \<Rightarrow> config \<Rightarrow> (page \<Rightarrow> page \<times> task list) \<Rightarrow> config option" where
  "settle_task t c k =
     (if t \<in> set (tasks c)
      then (let (p', new) = k (page c) in Some \<lparr>page = p', tasks = new @ remove1 t (tasks c)\<rparr>)
      else None)"

fun fire :: "config \<Rightarrow> event \<Rightarrow> config option" where
  "fire c (Set_name v) =
     Some (c\<lparr>page := (page c)\<lparr>businessInfo := (businessInfo (page c))\<lparr>name := v\<rparr>\<rparr>\<rparr>)"
| "fire c (Set_industry v) =
     Some (c\<lparr>page := (page c)\<lparr>businessInfo := (businessInfo (page c))\<lparr>industry := v\<rparr>\<rparr>\<rparr>)"
| "fire c (Set_size v) =
     Some (c\<lparr>page := (page c)\<lparr>businessInfo := (businessInfo (page c))\<lparr>size' := v\<rparr>\<rparr>\<rparr>)"
| "fire c (Set_location v) =
     Some (c\<lparr>page := (page c)\<lparr>businessInfo := (businessInfo (page c))\<lparr>location := v\<rparr>\<rparr>\<rparr>)"
| "fire c Submit_form =
     (if loading (page c) then None
      else (let (p', b) = onSubmit_begin (page c)
            in Some \<lparr>page = p', tasks = Awaiting_start b # tasks c\<rparr>))"
| "fire c (Start_settles b r) =
     settle_task (Awaiting_start b) c
       (\<lambda>p. let (p', next) = onSubmit_started p (startAssessment (\<lambda>_. r) b)
            in (p', case next of None \<Rightarrow> [] | Some a \<Rightarrow> [Awaiting_first_question a]))"
| "fire c (First_question_settles a r) =
     settle_task (Awaiting_first_question a) c
       (\<lambda>p. (onSubmit_fetched p (getNextQuestion (\<lambda>_. r) a), []))"
| "fire c (Click score_key) =
     (if button_enabled (page c) score_key then
        (case questionData (page c) of
           Some (Question q) \<Rightarrow>
             (let (p', call) = onClick_begin (assessmentId (page c)) q score_key (page c)
              in Some \<lparr>page = p',
                       tasks = (case call of None \<Rightarrow> [] | Some (a, d) \<Rightarrow> [Awaiting_submit a d])
                               @ tasks c\<rparr>)
         | _ \<Rightarrow> None)
      else None)"
| "fire c (Submit_settles a d r) =
     settle_task (Awaiting_submit a d) c
       (\<lambda>p. let (p', next) = onClick_submitted p (submitAnswer (\<lambda>_. r) a d)
            in (p', if next then [Awaiting_next_question a] else []))"
| "fire c (Next_question_settles a r) =
     settle_task (Awaiting_next_question a) c
       (\<lambda>p. (onClick_fetched p (getNextQuestion (\<lambda>_. r) a), []))"

fun run :: "config \<Rightarrow> event list \<Rightarrow> config option" where
  "run c [] = Some c"
| "run c (e # es) = (case fire c e of None \<Rightarrow> None | Some c' \<Rightarrow> run c' es)"

text \<open>The number of \<open>submitAnswer\<close> calls, and of answer handlers, that have not settled.\<close>

definition is_submit_call :: "task \<Rightarrow> bool" where
  "is_submit_call t = (case t of Awaiting_submit _ _ \<Rightarrow> True | _ \<Rightarrow> False)"

definition is_answer_task :: "task \<Rightarrow> bool" where
  "is_answer_task t =
     (case t of Awaiting_submit _ _ \<Rightarrow> True | Awaiting_next_question _ \<Rightarrow> True | _ \<Rightarrow> False)"

definition submit_calls_in_flight :: "config \<Rightarrow> nat" where
  "submit_calls_in_flight c = length (filter is_submit_call (tasks c))"

definition answer_handlers_in_flight :: "config \<Rightarrow> nat" where
  "answer_handlers_in_flight c = length (filter is_answer_task (tasks c))"

text \<open>
  What a run has shown of the session, read off its events: the questions whose answer
  \<open>submitAnswer\<close> reported as accepted (\<open>res.success\<close>), in order, and the question
  that \<open>getNextQuestion\<close> returned last.
\<close>

definition accepted :: "event \<Rightarrow> bool" where
  "accepted e =
     (case e of
        Submit_settles a d r \<Rightarrow>
          (case submitAnswer (\<lambda>_. r) a d of Inl _ \<Rightarrow> False | Inr res \<Rightarrow> success res)
      | _ \<Rightarrow> False)"

definition answered_questions :: "event list \<Rightarrow> js_string list" where
  "answered_questions es =
     concat (map (\<lambda>e. case e of
                         Submit_settles a d r \<Rightarrow> if accepted e then [question_id d] else []
                       | _ \<Rightarrow> []) es)"

definition returned_question :: "event \<Rightarrow> QuestionData option" where
  "returned_question e =
     (case e of
        First_question_settles a r \<Rightarrow>
          (case getNextQuestion (\<lambda>_. r) a of Inr (Question q) \<Rightarrow> Some q | _ \<Rightarrow> None)
      | Next_question_settles a r \<Rightarrow>
          (case getNextQuestion (\<lambda>_. r) a of Inr (Question q) \<Rightarrow> Some q | _ \<Rightarrow> None)
      | _ \<Rightarrow> None)"

fun last_question :: "event list \<Rightarrow> QuestionData option" where
  "last_question [] = None"
| "last_question (e # es) =
     (case last_question es of Some q \<Rightarrow> Some q | None \<Rightarrow> returned_question e)"

section \<open>The assessment session behind the API\<close>

text \<open>
  The server that answers the four endpoints is not among the sources. Its session state
  machine is written here from the specification (sections 3 and 4.1), over a catalog
  that is the flattened question sequence.
\<close>

text \<open>Modelled from the spec: the three error kinds of section 7.\<close>

datatype api_error = ValidationError | NotFoundError | ConflictError

text \<open>
  Modelled from the spec: the session record of section 3, whose declaration is missing:
  the business profile, the cursor into the flattened sequence, the mapping from question
  identifier to recorded score, and the completion flag. The store keeps the sessions in
  the order of their creation, and a session identifier is the position in it.
\<close>

record session =
  profile :: BusinessInfo
  cursor :: nat
  answers :: "js_string \<rightharpoonup> int"
  completed :: bool

type_synonym store = "session list"

text \<open>
  Modelled from the spec: the output of \<open>next_question\<close>, a completion signal without a
  question payload or the question at the cursor.
\<close>

datatype next_result = Completion_signal | Current_question QuestionData

text \<open>Modelled from the spec: the trimmed business profile that \<open>start\<close> stores.\<close>

definition trimmed_profile :: "BusinessInfo \<Rightarrow> BusinessInfo" where
  "trimmed_profile b =
     \<lparr>name = trim (name b), industry = trim (industry b), size' = trim (size' b),
      location = trim (location b)\<rparr>"

text \<open>
  Modelled from the spec: \<open>start(business profile)\<close>, whose implementation is missing.
  It stores the trimmed profile, sets the cursor to index 0, starts with an empty answer
  mapping and a cleared completion flag, and returns the fresh identifier; it fails with
  \<open>ValidationError\<close> if a required profile field is empty after trimming.
\<close>

definition start :: "store \<Rightarrow> BusinessInfo \<Rightarrow> (api_error + nat) \<times> store" where
  "start st b =
     (let t = trimmed_profile b in
      if name t = [] \<or> industry t = [] \<or> size' t = [] \<or> location t = []
      then (Inl ValidationError, st)
      else (Inr (length st),
            st @ [\<lparr>profile = t, cursor = 0, answers = Map.empty, completed = False\<rparr>]))"

text \<open>
  Modelled from the spec: \<open>next_question(session_id)\<close>, whose implementation is missing.
  \<open>NotFoundError\<close> for an unknown identifier; at the end of the flattened sequence a
  completion signal, the completion flag being set if it was not; otherwise the question
  at the cursor, the state untouched.
\<close>

definition next_question ::
  "QuestionData list \<Rightarrow> store \<Rightarrow> nat \<Rightarrow> (api_error + next_result) \<times> store" where
  "next_question catalog st sid =
     (if length st \<le> sid then (Inl NotFoundError, st)
      else let s = st ! sid in
        if length catalog \<le> cursor s
        then (Inr Completion_signal, st[sid := s\<lparr>completed := True\<rparr>])
        else (Inr (Current_question (catalog ! cursor s)), st))"

text \<open>
  Modelled from the spec: \<open>submit_answer(session_id, question_id, score)\<close>, whose
  implementation is missing. \<open>ValidationError\<close> for a score outside 1..5,
  \<open>NotFoundError\<close> for an unknown identifier, \<open>ConflictError\<close> when the question is not
  the one at the cursor; on success the score is recorded, the cursor advances by one and
  the completion flag is set when the cursor reaches the length of the sequence. The
  result tells whether the session is now complete.
\<close>

definition submit_answer ::
  "QuestionData list \<Rightarrow> store \<Rightarrow> nat \<Rightarrow> js_string \<Rightarrow> int \<Rightarrow> (api_error + bool) \<times> store" where
  "submit_answer catalog st sid qid sc =
     (if sc < 1 \<or> 5 < sc then (Inl ValidationError, st)
      else if length st \<le> sid then (Inl NotFoundError, st)
      else let s = st ! sid in
        if length catalog \<le> cursor s \<or> question_id (catalog ! cursor s) \<noteq> qid
        then (Inl ConflictError, st)
        else let done = (cursor s + 1 = length catalog) in
          (Inr done,
           st[sid := s\<lparr>answers := (answers s)(qid \<mapsto> sc), cursor := cursor s + 1,
                       completed := (done \<or> completed s)\<rparr>]))"

text \<open>
  Modelled from the spec: the session's lifecycle, the stores that calls of the three
  operations produce from the empty store.
\<close>

datatype backend_call =
    Call_start BusinessInfo
  | Call_next_question nat
  | Call_submit_answer nat js_string int

fun serve :: "QuestionData list \<Rightarrow> store \<Rightarrow> backend_call \<Rightarrow> store" where
  "serve catalog st (Call_start b) = snd (start st b)"
| "serve catalog st (Call_next_question sid) = snd (next_question catalog st sid)"
| "serve catalog st (Call_submit_answer sid qid sc) = snd (submit_answer catalog st sid qid sc)"

definition serve_all :: "QuestionData list \<Rightarrow> backend_call list \<Rightarrow> store" where
  "serve_all catalog calls = foldl (serve catalog) [] calls"

section \<open>Sample data for concrete runs\<close>

definition sample_profile :: BusinessInfo where
  "sample_profile =
     \<lparr>name = ascii ''Acme'', industry = ascii ''Technology'',
      size' = ascii ''Small (1-50 employees)'', location = ascii ''Nairobi''\<rparr>"

definition sample_id :: js_string where
  "sample_id = ascii ''a1''"

definition sample_question :: "nat \<Rightarrow> QuestionData" where
  "sample_question i =
     \<lparr>section_id = ascii ''data_infrastructure'', question_id = ascii ''q'' @ [0x41 + of_nat i],
      section_name = ascii ''Data Infrastructure'', question = ascii ''How is data stored?'',
      description = None,
      scoring_rubric = [(ascii ''1'', ascii ''none''), (ascii ''2'', ascii ''basic''),
                        (ascii ''3'', ascii ''some''), (ascii ''4'', ascii ''good''),
                        (ascii ''5'', ascii ''full'')]\<rparr>"

definition replies :: "'a \<Rightarrow> 'a fetch_result" where
  "replies x = Inr \<lparr>ok = True, json = Inr x\<rparr>"

definition start_events :: "event list" where
  "start_events =
     [Set_name (name sample_profile), Set_industry (industry sample_profile),
      Set_size (size' sample_profile), Set_location (location sample_profile), Submit_form,
      Start_settles sample_profile
        (replies \<lparr>success = True, error = None, assessment_id = Some sample_id\<rparr>),
      First_question_settles sample_id (replies (Question (sample_question 0)))]"

definition answer_events :: "nat \<Rightarrow> next_reply \<Rightarrow> event list" where
  "answer_events i nextQ =
     [Click (ascii ''3''),
      Submit_settles sample_id
        \<lparr>section_id = section_id (sample_question i), question_id = question_id (sample_question i),
         score = Num 3\<rparr>
        (replies \<lparr>success = True, error = None\<rparr>),
      Next_question_settles sample_id (replies nextQ)]"

definition answered_run :: "nat \<Rightarrow> event list" where
  "answered_run n =
     start_events @ concat (map (\<lambda>i. answer_events i (Question (sample_question (Suc i)))) [0..<n])"

definition complete_run :: "event list" where
  "complete_run = answered_run 20 @ answer_events 20 (Completed True)"

definition showing :: "nat \<Rightarrow> next_reply option \<Rightarrow> config" where
  "showing n qd =
     \<lparr>page = \<lparr>businessInfo = sample_profile, currentQuestionIdx = n, showQuestions = True,
              questionData = qd, answerLoading = False, loading = False,
              assessmentId = Some sample_id, error' = None\<rparr>,
      tasks = []\<rparr>"

definition submitting :: "nat \<Rightarrow> config" where
  "submitting n =
     \<lparr>page = \<lparr>businessInfo = sample_profile, currentQuestionIdx = n, showQuestions = True,
              questionData = Some (Question (sample_question n)), answerLoading = True,
              loading = False, assessmentId = Some sample_id, error' = None\<rparr>,
      tasks = [Awaiting_submit sample_id
                 \<lparr>section_id = section_id (sample_question n),
                  question_id = question_id (sample_question n), score = Num 3\<rparr>]\<rparr>"

definition blank_profile :: BusinessInfo where
  "blank_profile = sample_profile\<lparr>name := ascii ''  ''\<rparr>"

definition blank_events :: "event list" where
  "blank_events =
     [Set_name (name blank_profile), Set_industry (industry blank_profile),
      Set_size (size' blank_profile), Set_location (location blank_profile), Submit_form]"

definition blank_submitted :: config where
  "blank_submitted =
     \<lparr>page = \<lparr>businessInfo = blank_profile, currentQuestionIdx = 0, showQuestions = False,
              questionData = None, answerLoading = False, loading = True,
              assessmentId = None, error' = None\<rparr>,
      tasks = [Awaiting_start blank_profile]\<rparr>"

text \<open>The catalog and the calls of the specification's first scenario.\<close>

definition two_questions :: "QuestionData list" where
  "two_questions = [sample_question 0, sample_question 1]"

definition two_answers :: "backend_call list" where
  "two_answers =
     [Call_start sample_profile,
      Call_submit_answer 0 (question_id (sample_question 0)) 4,
      Call_submit_answer 0 (question_id (sample_question 1)) 5]"

definition not_found :: "'a fetch_result" where
  "not_found = Inr \<lparr>ok = False, json = Inl (Error_obj (ascii ''Unexpected token''))\<rparr>"

section \<open>Invariants of the runs\<close>

text \<open>The \<open>answerLoading\<close> flag is set exactly while one answer handler is suspended.\<close>

definition loading_matches :: "config \<Rightarrow> bool" where
  "loading_matches c \<longleftrightarrow>
     answer_handlers_in_flight c = (if answerLoading (page c) then 1 else 0)"

text \<open>A question on display is the one that \<open>getNextQuestion\<close> returned last.\<close>

definition shows_last_question :: "event list \<Rightarrow> config \<Rightarrow> bool" where
  "shows_last_question es c \<longleftrightarrow>
     (\<forall>q. questionData (page c) = Some (Question q) \<longrightarrow> last_question es = Some q)"

text \<open>The questions are shown only once a session identifier is stored.\<close>

definition session_ready :: "config \<Rightarrow> bool" where
  "session_ready c \<longleftrightarrow> (showQuestions (page c) \<longrightarrow> truthy (assessmentId (page c)))"

text \<open>
  In the modelled store, the cursor stays within the catalog and the completion flag is
  set exactly at its end.
\<close>

definition consistent :: "QuestionData list \<Rightarrow> store \<Rightarrow> bool" where
  "consistent catalog st \<longleftrightarrow>
     (\<forall>s \<in> set st. cursor s \<le> length catalog \<and> (completed s \<longleftrightarrow> cursor s = length catalog))"

section \<open>Auxiliary facts\<close>

lemmas js_defs = ascii_def trim_def is_whitespace_def truthy_def parseInt_def is_digit_def
  digit_value_def digits_value_def

lemmas api_defs = settle_def startAssessment_def getNextQuestion_def submitAnswer_def
  getAssessmentGuidance_def

lemmas handler_defs = onSubmit_begin_def cleanBusinessInfo_def errorMessage_def onSubmit_started_def
  onSubmit_fetched_def onClick_begin_def onClick_submitted_def onClick_fetched_def
  completed_signal_def has_question_def answer_buttons_def button_enabled_def settle_task_def

lemmas double_defs = progress_percentage_def Math_round_def js_times_def js_divide_def to_double_def
  binade_def round_half_even_def Let_def bitlen.simps

subsection \<open>Runs\<close>

lemma run_append: "run c (es @ fs) = (case run c es of None \<Rightarrow> None | Some c' \<Rightarrow> run c' fs)"
  by (induction es arbitrary: c) (auto split: option.splits)

lemma run_snoc:
  "run c (es @ [e]) = Some c'' \<longleftrightarrow> (\<exists>c'. run c es = Some c' \<and> fire c' e = Some c'')"
  by (auto simp: run_append split: option.splits)

lemma filter_remove1_other: "\<not> P t \<Longrightarrow> filter P (remove1 t ts) = filter P ts"
  by (induction ts) auto

lemma length_filter_remove1:
  "t \<in> set ts \<Longrightarrow> P t \<Longrightarrow> Suc (length (filter P (remove1 t ts))) = length (filter P ts)"
  by (induction ts) auto

lemma filter_pos: "t \<in> set ts \<Longrightarrow> P t \<Longrightarrow> 0 < length (filter P ts)"
  by (induction ts) auto

subsection \<open>The sample run\<close>

lemma parse3: "parseInt (ascii ''3'') = Num 3"
  by (simp add: js_defs Let_def)

lemma parse3_units: "parseInt [51] = Num 3"
  using parse3 by (simp add: ascii_def)

lemma clean_sample: "cleanBusinessInfo sample_profile = sample_profile"
  by (simp add: cleanBusinessInfo_def sample_profile_def js_defs)

lemma run_start:
  "run initial_config start_events = Some (showing 0 (Some (Question (sample_question 0))))"
  by (simp add: start_events_def initial_config_def initial_page_def handler_defs api_defs
      replies_def showing_def sample_profile_def sample_id_def js_defs)

lemma run_answer:
  "run (showing i (Some (Question (sample_question i)))) (answer_events i (Question q))
     = Some (showing (Suc i) (Some (Question q)))"
  by (simp add: answer_events_def handler_defs api_defs replies_def showing_def parse3_units
      sample_question_def sample_id_def truthy_def ascii_def)

lemma run_final:
  "run (showing i (Some (Question (sample_question i)))) (answer_events i (Completed True))
     = Some (showing i None)"
  by (simp add: answer_events_def handler_defs api_defs replies_def showing_def parse3_units
      sample_question_def sample_id_def truthy_def ascii_def)

lemma run_answered:
  "run initial_config (answered_run n) = Some (showing n (Some (Question (sample_question n))))"
proof (induction n)
  case 0
  show ?case by (simp add: answered_run_def run_start)
next
  case (Suc n)
  have "answered_run (Suc n) = answered_run n @ answer_events n (Question (sample_question (Suc n)))"
    by (simp add: answered_run_def)
  then show ?case by (simp add: run_append Suc run_answer)
qed

lemma completion_branch_keeps_index:
  "currentQuestionIdx (onClick_fetched p (Inr (Completed True))) = currentQuestionIdx p"
  by (simp add: onClick_fetched_def completed_signal_def)

lemma question_branch_advances_index:
  "currentQuestionIdx (onClick_fetched p (Inr (Question q))) = currentQuestionIdx p + 1"
  by (simp add: onClick_fetched_def completed_signal_def has_question_def)

subsection \<open>The loading flag\<close>

lemma answerLoading_onSubmit_started [simp]:
  "answerLoading (fst (onSubmit_started p r)) = answerLoading p"
  by (simp add: onSubmit_started_def split: sum.splits)

lemma answerLoading_onSubmit_fetched [simp]:
  "answerLoading (onSubmit_fetched p r) = answerLoading p"
  by (simp add: onSubmit_fetched_def split: sum.splits)

lemma answerLoading_onClick_fetched [simp]:
  "answerLoading (onClick_fetched p r) = False"
  by (simp add: onClick_fetched_def split: sum.splits)

lemma fire_loading_matches:
  assumes "fire c e = Some c'" and "loading_matches c"
  shows "loading_matches c'"
proof (cases e)
  case (Click k)
  with assms show ?thesis
    by (auto simp: loading_matches_def answer_handlers_in_flight_def button_enabled_def
        onClick_begin_def is_answer_task_def Let_def
        split: if_splits option.splits next_reply.splits)
next
  case (Submit_settles a d r)
  let ?t = "Awaiting_submit a d"
  from assms Submit_settles have mem: "?t \<in> set (tasks c)"
    by (simp add: settle_task_def split: if_splits)
  have P: "is_answer_task ?t" by (simp add: is_answer_task_def)
  from filter_pos[of _ _ is_answer_task, OF mem P] assms(2) have L: "answerLoading (page c)"
    by (auto simp: loading_matches_def answer_handlers_in_flight_def split: if_splits)
  with assms(2) length_filter_remove1[of _ _ is_answer_task, OF mem P]
  have Z: "length (filter is_answer_task (remove1 ?t (tasks c))) = 0"
    by (simp add: loading_matches_def answer_handlers_in_flight_def)
  from assms(1) Submit_settles mem L Z show ?thesis
    by (auto simp: settle_task_def loading_matches_def answer_handlers_in_flight_def
        onClick_submitted_def is_answer_task_def Let_def split: sum.splits if_splits)
next
  case (Next_question_settles a r)
  let ?t = "Awaiting_next_question a"
  from assms Next_question_settles have mem: "?t \<in> set (tasks c)"
    by (simp add: settle_task_def split: if_splits)
  have P: "is_answer_task ?t" by (simp add: is_answer_task_def)
  from filter_pos[of _ _ is_answer_task, OF mem P] assms(2) have L: "answerLoading (page c)"
    by (auto simp: loading_matches_def answer_handlers_in_flight_def split: if_splits)
  with assms(2) length_filter_remove1[of _ _ is_answer_task, OF mem P]
  have Z: "length (filter is_answer_task (remove1 ?t (tasks c))) = 0"
    by (simp add: loading_matches_def answer_handlers_in_flight_def)
  from assms(1) Next_question_settles mem Z show ?thesis
    by (auto simp: settle_task_def loading_matches_def answer_handlers_in_flight_def)
next
  case (Start_settles b r)
  have N: "\<not> is_answer_task (Awaiting_start b)" by (simp add: is_answer_task_def)
  from assms Start_settles show ?thesis
    by (auto simp: settle_task_def loading_matches_def answer_handlers_in_flight_def
        filter_remove1_other[of is_answer_task, OF N] is_answer_task_def Let_def case_prod_beta
        split: if_splits option.splits)
next
  case (First_question_settles a r)
  have N: "\<not> is_answer_task (Awaiting_first_question a)" by (simp add: is_answer_task_def)
  from assms First_question_settles show ?thesis
    by (auto simp: settle_task_def loading_matches_def answer_handlers_in_flight_def
        filter_remove1_other[of is_answer_task, OF N] split: if_splits)
next
  case Submit_form
  with assms show ?thesis
    by (auto simp: loading_matches_def answer_handlers_in_flight_def onSubmit_begin_def
        is_answer_task_def split: if_splits)
qed (use assms in \<open>auto simp: loading_matches_def answer_handlers_in_flight_def\<close>)

lemma run_loading_matches:
  "run c es = Some c' \<Longrightarrow> loading_matches c \<Longrightarrow> loading_matches c'"
  by (induction es arbitrary: c) (auto split: option.splits dest: fire_loading_matches)

lemma initial_loading_matches: "loading_matches initial_config"
  by (simp add: loading_matches_def answer_handlers_in_flight_def initial_config_def initial_page_def)

lemma submit_calls_le: "submit_calls_in_flight c \<le> answer_handlers_in_flight c"
proof -
  have "filter is_submit_call (tasks c) = filter is_submit_call (filter is_answer_task (tasks c))"
    by (auto simp: is_submit_call_def is_answer_task_def intro!: filter_cong split: task.splits)
  then show ?thesis
    unfolding submit_calls_in_flight_def answer_handlers_in_flight_def
    by (metis length_filter_le)
qed

subsection \<open>Rounding\<close>

lemma progress_table:
  "map progress_percentage [0,1,2,3,4,5,6,7,8,9,10,11,12,13,14,15,16,17,18,19,20,21]
   = map (\<lambda>idx. (200 * int idx + 21) div 42) [0,1,2,3,4,5,6,7,8,9,10,11,12,13,14,15,16,17,18,19,20,21]"
  by (simp add: double_defs)

lemma upto_21_cases:
  "idx \<le> 21 \<Longrightarrow> idx \<in> set [0,1,2,3,4,5,6,7,8,9,10,11,12,13,14,15,16,17,18,19,20,21::nat]"
  by (simp only: set_simps insert_iff empty_iff) arith

lemma progress_closed_form:
  assumes "idx \<le> 21"
  shows "progress_percentage idx = (200 * int idx + 21) div 42"
proof -
  let ?xs = "[0,1,2,3,4,5,6,7,8,9,10,11,12,13,14,15,16,17,18,19,20,21::nat]"
  from upto_21_cases[OF assms] obtain i where i: "i < length ?xs" "?xs ! i = idx"
    unfolding in_set_conv_nth by blast
  have "map progress_percentage ?xs ! i = map (\<lambda>idx. (200 * int idx + 21) div 42) ?xs ! i"
    by (simp only: progress_table)
  with i show ?thesis by (simp only: nth_map)
qed

lemma spec_closed_form: "completion_percentage_spec c 21 = (200 * int c + 21) div 42"
proof -
  have "(of_nat c :: rat) / of_nat 21 * 100 + 1 / 2 = of_int (200 * int c + 21) / of_int 42"
    by simp
  then show ?thesis
    unfolding completion_percentage_spec_def round_def
    by (simp only: floor_divide_of_int_eq)
qed

subsection \<open>Trimming\<close>

lemma dropWhile_rear:
  assumes "ys = dropWhile P xs"
  shows "dropWhile P (rev (dropWhile P (rev ys))) = rev (dropWhile P (rev ys))"
proof (cases ys)
  case Nil
  then show ?thesis by simp
next
  case (Cons y ys')
  with assms have "\<not> P y"
    by (metis hd_dropWhile list.distinct(1) list.sel(1))
  with Cons show ?thesis
    by (simp add: dropWhile_append)
qed

lemma trim_idem: "trim (trim s) = trim s"
  unfolding trim_def
  by (simp add: dropWhile_rear[OF refl] dropWhile_idem)

lemma trimmed_clean: "trimmed_profile (cleanBusinessInfo b) = trimmed_profile b"
  by (simp add: trimmed_profile_def cleanBusinessInfo_def trim_idem)

subsection \<open>The wrappers\<close>

lemma settle_not_ok: "\<not> ok res \<Longrightarrow> settle msg (Inr res) = Inl (Error_obj msg)"
  by (simp add: settle_def)

lemma settle_Inr: "settle msg r = Inr x \<Longrightarrow> \<exists>res. r = Inr res \<and> ok res \<and> json res = Inr x"
  by (auto simp: settle_def split: sum.splits if_splits)

subsection \<open>The displayed question\<close>

lemma last_question_snoc:
  "last_question (es @ [e]) = (case returned_question e of Some q \<Rightarrow> Some q | None \<Rightarrow> last_question es)"
  by (induction es) (auto split: option.splits)

lemma fire_questionData:
  assumes "fire c e = Some c'" and "questionData (page c') = Some (Question q)"
  shows "returned_question e = Some q
         \<or> (returned_question e = None \<and> questionData (page c) = Some (Question q))"
proof (cases e)
  case (First_question_settles a r)
  with assms show ?thesis
    by (auto simp: settle_task_def onSubmit_fetched_def returned_question_def completed_signal_def
        split: if_splits sum.splits next_reply.splits)
next
  case (Next_question_settles a r)
  with assms show ?thesis
    by (auto simp: settle_task_def onClick_fetched_def returned_question_def completed_signal_def
        has_question_def split: if_splits sum.splits next_reply.splits)
next
  case (Start_settles b r)
  with assms show ?thesis
    by (auto simp: settle_task_def onSubmit_started_def returned_question_def Let_def
        split: if_splits sum.splits)
next
  case (Submit_settles a d r)
  with assms show ?thesis
    by (auto simp: settle_task_def onClick_submitted_def returned_question_def Let_def
        split: if_splits sum.splits)
next
  case (Click k)
  with assms show ?thesis
    by (auto simp: onClick_begin_def returned_question_def Let_def
        split: if_splits option.splits next_reply.splits)
next
  case Submit_form
  with assms show ?thesis
    by (auto simp: onSubmit_begin_def returned_question_def split: if_splits)
qed (use assms in \<open>auto simp: returned_question_def\<close>)

lemma run_shows_last_question:
  "run initial_config es = Some c \<Longrightarrow> shows_last_question es c"
proof (induction es arbitrary: c rule: rev_induct)
  case Nil
  then show ?case
    by (auto simp: shows_last_question_def initial_config_def initial_page_def)
next
  case (snoc e es)
  from snoc.prems obtain c0 where c0: "run initial_config es = Some c0" "fire c0 e = Some c"
    by (auto simp: run_snoc)
  from snoc.IH[OF c0(1)] have IH: "shows_last_question es c0" .
  show ?case
    unfolding shows_last_question_def
  proof (intro allI impI)
    fix q assume "questionData (page c) = Some (Question q)"
    from fire_questionData[OF c0(2) this] IH show "last_question (es @ [e]) = Some q"
      by (auto simp: last_question_snoc shows_last_question_def)
  qed
qed

lemma fire_session_ready:
  assumes "fire c e = Some c'" and "session_ready c"
  shows "session_ready c'"
proof (cases e)
  case (First_question_settles a r)
  with assms show ?thesis
    by (auto simp: settle_task_def onSubmit_fetched_def session_ready_def
        split: if_splits sum.splits)
next
  case (Next_question_settles a r)
  with assms show ?thesis
    by (auto simp: settle_task_def onClick_fetched_def session_ready_def
        split: if_splits sum.splits)
next
  case (Start_settles b r)
  with assms show ?thesis
    by (auto simp: settle_task_def onSubmit_started_def session_ready_def Let_def
        split: if_splits sum.splits)
next
  case (Submit_settles a d r)
  with assms show ?thesis
    by (auto simp: settle_task_def onClick_submitted_def session_ready_def Let_def
        split: if_splits sum.splits)
next
  case (Click k)
  with assms show ?thesis
    by (auto simp: onClick_begin_def session_ready_def Let_def
        split: if_splits option.splits next_reply.splits)
next
  case Submit_form
  with assms show ?thesis
    by (auto simp: onSubmit_begin_def session_ready_def split: if_splits)
qed (use assms in \<open>auto simp: session_ready_def\<close>)

lemma run_session_ready:
  "run c es = Some c' \<Longrightarrow> session_ready c \<Longrightarrow> session_ready c'"
  by (induction es arbitrary: c) (auto split: option.splits dest: fire_session_ready)

lemma initial_session_ready: "session_ready initial_config"
  by (simp add: session_ready_def initial_config_def initial_page_def)

lemma fire_no_new_submit:
  assumes "fire c e = Some c'" and "\<forall>k. e \<noteq> Click k"
  shows "set (filter is_submit_call (tasks c')) \<subseteq> set (filter is_submit_call (tasks c))"
proof (cases e)
  case (Click k)
  with assms show ?thesis by simp
next
  case Submit_form
  with assms show ?thesis
    by (auto simp: onSubmit_begin_def is_submit_call_def split: if_splits)
qed (use assms in \<open>auto simp: settle_task_def is_submit_call_def Let_def case_prod_beta
       split: if_splits option.splits dest: set_remove1_subset[THEN subsetD]\<close>)

subsection \<open>The modelled store\<close>

lemma completed_update_id: "completed s \<Longrightarrow> s\<lparr>completed := True\<rparr> = s"
  by (cases s) simp

lemma serve_consistent:
  assumes "catalog \<noteq> []" and "consistent catalog st"
  shows "consistent catalog (serve catalog st call)"
proof (cases call)
  case (Call_start b)
  with assms show ?thesis
    by (auto simp: consistent_def start_def Let_def)
next
  case (Call_next_question sid)
  with assms show ?thesis
    by (auto simp: consistent_def next_question_def Let_def
        dest!: set_update_subset_insert[THEN subsetD])
next
  case (Call_submit_answer sid qid sc)
  with assms show ?thesis
    by (auto simp: consistent_def submit_answer_def Let_def
        dest!: set_update_subset_insert[THEN subsetD])
qed

lemma foldl_serve_consistent:
  "catalog \<noteq> [] \<Longrightarrow> consistent catalog st \<Longrightarrow> consistent catalog (foldl (serve catalog) st calls)"
  by (induction calls arbitrary: st) (auto intro: serve_consistent)

lemma serve_all_consistent: "catalog \<noteq> [] \<Longrightarrow> consistent catalog (serve_all catalog calls)"
  unfolding serve_all_def by (rule foldl_serve_consistent) (simp_all add: consistent_def)

lemma next_question_keeps_store:
  assumes "consistent catalog st"
  shows "snd (next_question catalog st sid) = st"
proof (cases "sid < length st \<and> length catalog \<le> cursor (st ! sid)")
  case True
  then have "st ! sid \<in> set st" by simp
  with assms True have "completed (st ! sid)" by (auto simp: consistent_def)
  with True show ?thesis
    by (simp add: next_question_def Let_def completed_update_id)
next
  case False
  then show ?thesis by (auto simp: next_question_def Let_def)
qed

lemma serve_one: "serve_all two_questions (butlast two_answers)
  = [\<lparr>profile = sample_profile, cursor = 1,
      answers = [question_id (sample_question 0) \<mapsto> 4], completed = False\<rparr>]"
  by (simp add: serve_all_def two_answers_def two_questions_def start_def submit_answer_def
      trimmed_profile_def sample_profile_def sample_question_def js_defs Let_def)

lemma serve_two: "serve_all two_questions two_answers
  = [\<lparr>profile = sample_profile, cursor = 2,
      answers = [question_id (sample_question 0) \<mapsto> 4, question_id (sample_question 1) \<mapsto> 5],
      completed = True\<rparr>]"
  by (simp add: serve_all_def two_answers_def two_questions_def start_def submit_answer_def
      trimmed_profile_def sample_profile_def sample_question_def js_defs Let_def)

subsection \<open>Accepted answers of the sample run\<close>

lemma answered_questions_append:
  "answered_questions (es @ fs) = answered_questions es @ answered_questions fs"
  by (simp add: answered_questions_def)

lemma answered_questions_start: "answered_questions start_events = []"
  by (simp add: answered_questions_def start_events_def)

lemma answered_questions_answer:
  "answered_questions (answer_events i q) = [question_id (sample_question i)]"
  by (simp add: answered_questions_def answer_events_def accepted_def api_defs replies_def)

lemma answered_questions_run:
  "answered_questions (answered_run n) = map (\<lambda>i. question_id (sample_question i)) [0..<n]"
proof (induction n)
  case 0
  show ?case by (simp add: answered_run_def answered_questions_start)
next
  case (Suc n)
  have "answered_run (Suc n) = answered_run n @ answer_events n (Question (sample_question (Suc n)))"
    by (simp add: answered_run_def)
  then show ?case
    by (simp add: answered_questions_append Suc answered_questions_answer)
qed

section \<open>The claims\<close>

text \<open>
  C1. Every successful \<open>submitAnswer\<close> is meant to move the current-question index forward
  by one, the last one included. In the run of a 21-question session the first twenty
  accepted answers bring the index to 20; the twenty-first is accepted as well, the next
  \<open>getNextQuestion\<close> reports completion, and the index is still 20.
\<close>

theorem final_answer_keeps_index:
  "run initial_config (answered_run 20) = Some (showing 20 (Some (Question (sample_question 20))))
   \<and> run (showing 20 (Some (Question (sample_question 20)))) (answer_events 20 (Completed True))
       = Some (showing 20 None)
   \<and> answered_questions (answer_events 20 (Completed True)) = [question_id (sample_question 20)]
   \<and> currentQuestionIdx (page (showing 20 None)) = 20"
  by (simp add: run_answered run_final answered_questions_answer) (simp add: showing_def)

text \<open>
  C2. When an assessment is started, the client trims the industry field before it sends
  the profile, and sends the name, size and location as they were entered. The server's
  \<open>start\<close> trims every required field of the profile before storing it, and fails with
  \<open>ValidationError\<close>, the store left as it was, whenever a required field is empty
  after trimming.
\<close>

theorem start_trims_industry_only:
  "snd (onSubmit_begin p)
     = \<lparr>name = name (businessInfo p), industry = trim (industry (businessInfo p)),
        size' = size' (businessInfo p), location = location (businessInfo p)\<rparr>
   \<and> body (startAssessment_request (snd (onSubmit_begin p))) = Json_business_info (snd (onSubmit_begin p))
   \<and> (fst (start st (snd (onSubmit_begin p))) = Inl ValidationError \<longleftrightarrow>
        trim (name (businessInfo p)) = [] \<or> trim (industry (businessInfo p)) = []
        \<or> trim (size' (businessInfo p)) = [] \<or> trim (location (businessInfo p)) = [])
   \<and> (fst (start st (snd (onSubmit_begin p))) = Inl ValidationError \<longrightarrow>
        snd (start st (snd (onSubmit_begin p))) = st)
   \<and> (fst (start st (snd (onSubmit_begin p))) \<noteq> Inl ValidationError \<longrightarrow>
        fst (start st (snd (onSubmit_begin p))) = Inr (length st)
        \<and> snd (start st (snd (onSubmit_begin p)))
            = st @ [\<lparr>profile = trimmed_profile (businessInfo p), cursor = 0, answers = Map.empty,
                     completed = False\<rparr>])"
proof -
  let ?b = "snd (onSubmit_begin p)"
  have b: "?b = cleanBusinessInfo (businessInfo p)" by (simp add: onSubmit_begin_def)
  have sent: "?b = \<lparr>name = name (businessInfo p), industry = trim (industry (businessInfo p)),
        size' = size' (businessInfo p), location = location (businessInfo p)\<rparr>"
    by (cases "businessInfo p") (simp add: b cleanBusinessInfo_def)
  have tp: "trimmed_profile ?b = trimmed_profile (businessInfo p)"
    by (simp add: b trimmed_clean)
  have server: "(fst (start st ?b) = Inl ValidationError \<longleftrightarrow>
        trim (name (businessInfo p)) = [] \<or> trim (industry (businessInfo p)) = []
        \<or> trim (size' (businessInfo p)) = [] \<or> trim (location (businessInfo p)) = [])
     \<and> (fst (start st ?b) = Inl ValidationError \<longrightarrow> snd (start st ?b) = st)
     \<and> (fst (start st ?b) \<noteq> Inl ValidationError \<longrightarrow>
        fst (start st ?b) = Inr (length st)
        \<and> snd (start st ?b)
            = st @ [\<lparr>profile = trimmed_profile (businessInfo p), cursor = 0, answers = Map.empty,
                     completed = False\<rparr>])"
    unfolding start_def Let_def tp
    by (auto simp: trimmed_profile_def)
  have req: "body (startAssessment_request ?b) = Json_business_info ?b"
    by (simp add: startAssessment_request_def)
  from sent req server show ?thesis by blast
qed

theorem start_trims_industry_only_witness:
  "trim (name (businessInfo (page blank_submitted))) = []
   \<and> fst (start [] (snd (onSubmit_begin (page blank_submitted)))) = Inl ValidationError
   \<and> snd (start [] (snd (onSubmit_begin (page blank_submitted)))) = []
   \<and> fst (start [] (snd (onSubmit_begin (page (showing 0 None))))) = Inr 0
   \<and> snd (start [] (snd (onSubmit_begin (page (showing 0 None)))))
       = [\<lparr>profile = trimmed_profile sample_profile, cursor = 0, answers = Map.empty,
           completed = False\<rparr>]"
proof -
  note bad = start_trims_industry_only[of "page blank_submitted" "[]"]
  note good = start_trims_industry_only[of "page (showing 0 None)" "[]"]
  have blank: "trim (name (businessInfo (page blank_submitted))) = []"
    by (simp add: blank_submitted_def blank_profile_def js_defs)
  have full: "trim (name (businessInfo (page (showing 0 None)))) \<noteq> []
      \<and> trim (industry (businessInfo (page (showing 0 None)))) \<noteq> []
      \<and> trim (size' (businessInfo (page (showing 0 None)))) \<noteq> []
      \<and> trim (location (businessInfo (page (showing 0 None)))) \<noteq> []"
    by (simp add: showing_def sample_profile_def js_defs)
  have info: "businessInfo (page (showing 0 None)) = sample_profile"
    by (simp add: showing_def)
  from bad blank have A: "fst (start [] (snd (onSubmit_begin (page blank_submitted)))) = Inl ValidationError"
    by blast
  from bad A have B: "snd (start [] (snd (onSubmit_begin (page blank_submitted)))) = []"
    by blast
  from good full have C: "fst (start [] (snd (onSubmit_begin (page (showing 0 None))))) \<noteq> Inl ValidationError"
    by blast
  from good C have D: "fst (start [] (snd (onSubmit_begin (page (showing 0 None))))) = Inr (length ([] :: store))"
    and E: "snd (start [] (snd (onSubmit_begin (page (showing 0 None)))))
       = [] @ [\<lparr>profile = trimmed_profile (businessInfo (page (showing 0 None))), cursor = 0,
                 answers = Map.empty, completed = False\<rparr>]"
    by blast+
  from blank A B D E show ?thesis by (simp add: info)
qed

text \<open>
  C2, as stated, fails for a name of two spaces: the request that the form sends carries
  the name untrimmed, although it is empty after trimming.
\<close>

theorem start_sends_name_untrimmed:
  "run initial_config blank_events = Some blank_submitted
   \<and> tasks blank_submitted = [Awaiting_start blank_profile]
   \<and> body (startAssessment_request blank_profile) = Json_business_info blank_profile
   \<and> name blank_profile = ascii ''  ''
   \<and> trim (name blank_profile) = []
   \<and> name blank_profile \<noteq> trim (name blank_profile)"
proof -
  have 1: "run initial_config blank_events = Some blank_submitted"
    by (simp add: blank_events_def blank_submitted_def initial_config_def initial_page_def
        handler_defs blank_profile_def sample_profile_def js_defs)
  have 2: "trim (name blank_profile) = []"
    by (simp add: blank_profile_def js_defs)
  have 3: "name blank_profile = ascii ''  ''"
    by (simp add: blank_profile_def)
  have 4: "tasks blank_submitted = [Awaiting_start blank_profile]"
    by (simp add: blank_submitted_def)
  have 5: "body (startAssessment_request blank_profile) = Json_business_info blank_profile"
    by (simp add: startAssessment_request_def)
  from 2 3 have 6: "name blank_profile \<noteq> trim (name blank_profile)"
    by (simp add: ascii_def)
  from 1 2 3 4 5 6 show ?thesis by blast
qed

text \<open>
  C3. When a \<open>submitAnswer\<close> call fails (it throws, or its reply has \<open>success\<close> false), the
  click and the settling of the call leave the current-question index, the displayed
  question and the session identifier as they were before the click; the handler ends
  there and \<open>answerLoading\<close> is cleared.
\<close>

theorem failed_submit_leaves_state:
  assumes "fire c (Click score_key) = Some c1"
    and "fire c1 (Submit_settles a d r) = Some c2"
    and "\<not> accepted (Submit_settles a d r)"
  shows "currentQuestionIdx (page c1) = currentQuestionIdx (page c)
         \<and> questionData (page c1) = questionData (page c)
         \<and> currentQuestionIdx (page c2) = currentQuestionIdx (page c)
         \<and> questionData (page c2) = questionData (page c)
         \<and> assessmentId (page c2) = assessmentId (page c)
         \<and> \<not> answerLoading (page c2)
         \<and> tasks c2 = remove1 (Awaiting_submit a d) (tasks c1)"
proof -
  from assms(1) have 1: "currentQuestionIdx (page c1) = currentQuestionIdx (page c)"
    "questionData (page c1) = questionData (page c)" "assessmentId (page c1) = assessmentId (page c)"
    by (auto simp: onClick_begin_def split: if_splits option.splits next_reply.splits)
  from assms(2,3) have 2: "page c2 = (page c1)\<lparr>answerLoading := False\<rparr>"
    "tasks c2 = remove1 (Awaiting_submit a d) (tasks c1)"
    by (auto simp: settle_task_def onClick_submitted_def accepted_def split: if_splits sum.splits)
  from 1 2 show ?thesis by simp
qed

theorem failed_submit_leaves_state_witness:
  "fire (showing 0 (Some (Question (sample_question 0)))) (Click (ascii ''3'')) = Some (submitting 0)
   \<and> fire (submitting 0)
        (Submit_settles sample_id
           \<lparr>section_id = section_id (sample_question 0), question_id = question_id (sample_question 0),
            score = Num 3\<rparr>
           (replies \<lparr>success = False, error = Some (ascii ''conflict'')\<rparr>))
      = Some (showing 0 (Some (Question (sample_question 0))))
   \<and> currentQuestionIdx (page (showing 0 (Some (Question (sample_question 0))))) = 0"
proof -
  let ?d = "\<lparr>section_id = section_id (sample_question 0), question_id = question_id (sample_question 0),
            score = Num 3\<rparr>"
  let ?r = "replies \<lparr>success = False, error = Some (ascii ''conflict'')\<rparr>"
  have 1: "fire (showing 0 (Some (Question (sample_question 0)))) (Click (ascii ''3'')) = Some (submitting 0)"
    by (simp add: showing_def submitting_def handler_defs sample_question_def
        sample_id_def truthy_def ascii_def parse3_units)
  have 2: "fire (submitting 0) (Submit_settles sample_id ?d ?r)
      = Some (showing 0 (Some (Question (sample_question 0))))"
    by (simp add: showing_def submitting_def handler_defs api_defs replies_def)
  have 3: "\<not> accepted (Submit_settles sample_id ?d ?r)"
    by (simp add: accepted_def api_defs replies_def)
  from failed_submit_leaves_state[OF 1 2 3] 1 2 show ?thesis
    by (simp add: showing_def)
qed

text \<open>
  C4. When the cursor has reached the end of the flattened sequence, \<open>next_question\<close>
  returns the completion signal, which carries no question; and when \<open>getNextQuestion\<close>
  returns \<^verbatim>\<open>{ completed: true }\<close> the client sets \<open>questionData\<close> to \<open>null\<close>, so that no
  question and no answer button is displayed.
\<close>

theorem completion_clears_question:
  "(sid < length st \<and> length catalog \<le> cursor (st ! sid) \<longrightarrow>
      fst (next_question catalog st sid) = Inr Completion_signal)
   \<and> (getNextQuestion fetch a = Inr (Completed True) \<longrightarrow>
        questionData (onClick_fetched p (getNextQuestion fetch a)) = None
        \<and> \<not> question_shown (onClick_fetched p (getNextQuestion fetch a))
        \<and> answer_buttons (onClick_fetched p (getNextQuestion fetch a)) = []
        \<and> questionData (onSubmit_fetched p (getNextQuestion fetch a)) = None
        \<and> \<not> question_shown (onSubmit_fetched p (getNextQuestion fetch a))
        \<and> answer_buttons (onSubmit_fetched p (getNextQuestion fetch a)) = [])"
  by (auto simp: next_question_def Let_def onClick_fetched_def onSubmit_fetched_def
      completed_signal_def question_shown_def answer_buttons_def)

theorem completion_clears_question_witness:
  "fst (next_question two_questions (serve_all two_questions two_answers) 0) = Inr Completion_signal
   \<and> getNextQuestion (\<lambda>_. replies (Completed True)) sample_id = Inr (Completed True)
   \<and> questionData (onClick_fetched (page (submitting 1))
        (getNextQuestion (\<lambda>_. replies (Completed True)) sample_id)) = None"
proof -
  have ret: "getNextQuestion (\<lambda>_. replies (Completed True)) sample_id = Inr (Completed True)"
    by (simp add: getNextQuestion_def settle_def replies_def)
  have st: "(0::nat) < length (serve_all two_questions two_answers)
     \<and> length two_questions \<le> cursor (serve_all two_questions two_answers ! 0)"
    unfolding serve_two by (simp add: two_questions_def)
  from completion_clears_question
    [of 0 "serve_all two_questions two_answers" two_questions
        "\<lambda>_. replies (Completed True)" sample_id "page (submitting 1)"] ret st
  show ?thesis by simp
qed

text \<open>
  C5. The questions marked completed are meant to be exactly the answered ones. At the end
  of the run of a 21-question session all 21 answers have been accepted, the question at
  index 20 among them, yet the index is 20: that question is not marked completed and is
  shown as the current one.
\<close>

theorem answered_question_not_marked:
  "run initial_config complete_run = Some (showing 20 None)
   \<and> answered_questions complete_run = map (\<lambda>i. question_id (sample_question i)) [0..<21]
   \<and> \<not> isCompleted 20 (currentQuestionIdx (page (showing 20 None)))
   \<and> isCurrent 20 (currentQuestionIdx (page (showing 20 None)))"
proof -
  have 1: "run initial_config complete_run = Some (showing 20 None)"
    by (simp add: complete_run_def run_append run_answered run_final)
  have "answered_questions complete_run = map (\<lambda>i. question_id (sample_question i)) [0..<Suc 20]"
    unfolding complete_run_def answered_questions_append answered_questions_run answered_questions_answer
    by (simp only: upt_Suc_append map_append list.map le0 if_True)
  then have 2: "answered_questions complete_run = map (\<lambda>i. question_id (sample_question i)) [0..<21]"
    by simp
  have 3: "currentQuestionIdx (page (showing 20 None)) = 20" by (simp add: showing_def)
  show ?thesis
    by (simp only: 1 2 3) (simp add: isCompleted_def isCurrent_def)
qed

text \<open>
  C6. For every cursor value from 0 to the total question count 21, the percentage that the
  progress display shows, \<^verbatim>\<open>Math.round((currentQuestionIdx / 21) * 100)\<close> computed in
  double arithmetic, is the answered count over the total count, scaled to 100 and rounded
  to the nearest integer; it is within one half of the exact quotient.
\<close>

theorem progress_percentage_is_rounded_ratio:
  assumes "idx \<le> 21"
  shows "progress_percentage idx = completion_percentage_spec idx 21
         \<and> \<bar>of_int (progress_percentage idx) - (of_nat idx :: rat) / 21 * 100\<bar> \<le> 1 / 2"
proof -
  have eq: "progress_percentage idx = completion_percentage_spec idx 21"
    by (simp only: progress_closed_form[OF assms] spec_closed_form)
  have "\<bar>of_int (round ((of_nat idx :: rat) / 21 * 100)) - (of_nat idx :: rat) / 21 * 100\<bar> \<le> 1 / 2"
    by (rule of_int_round_abs_le)
  then show ?thesis
    using eq by (simp add: completion_percentage_spec_def)
qed

theorem progress_percentage_is_rounded_ratio_witness:
  "(20::nat) \<le> 21 \<and> progress_percentage 20 = 95 \<and> completion_percentage_spec 20 21 = 95"
  using progress_percentage_is_rounded_ratio[of 20] by (simp add: spec_closed_form)

text \<open>
  C7. \<open>next_question\<close> is idempotent: a second call returns what the first returned, a
  call changes no cursor and no answer mapping, and on every store that the operations
  produce over a non-empty catalog a call leaves the whole store as it was. The client's
  \<open>getNextQuestion\<close> sends a \<open>GET\<close> without a body.
\<close>

theorem next_question_idempotent:
  "fst (next_question catalog (snd (next_question catalog st sid)) sid)
     = fst (next_question catalog st sid)
   \<and> map cursor (snd (next_question catalog st sid)) = map cursor st
   \<and> map answers (snd (next_question catalog st sid)) = map answers st
   \<and> (catalog \<noteq> [] \<longrightarrow>
        snd (next_question catalog (serve_all catalog calls) sid) = serve_all catalog calls)
   \<and> req_method (getNextQuestion_request a) = GET
   \<and> body (getNextQuestion_request a) = No_body"
proof -
  have out: "fst (next_question catalog (snd (next_question catalog st sid)) sid)
     = fst (next_question catalog st sid)"
    by (simp add: next_question_def Let_def)
  have cur: "map cursor (snd (next_question catalog st sid)) = map cursor st"
    by (simp add: next_question_def Let_def map_update list_update_same_conv)
  have ans: "map answers (snd (next_question catalog st sid)) = map answers st"
    by (simp add: next_question_def Let_def map_update list_update_same_conv)
  have "catalog \<noteq> [] \<longrightarrow>
        snd (next_question catalog (serve_all catalog calls) sid) = serve_all catalog calls"
    using next_question_keeps_store[OF serve_all_consistent] by blast
  with out cur ans show ?thesis
    by (simp add: getNextQuestion_request_def)
qed

theorem next_question_idempotent_witness:
  "two_questions \<noteq> []
   \<and> next_question two_questions (serve_all two_questions (butlast two_answers)) 0
       = (Inr (Current_question (sample_question 1)), serve_all two_questions (butlast two_answers))
   \<and> fst (next_question two_questions
            (snd (next_question two_questions (serve_all two_questions (butlast two_answers)) 0)) 0)
       = Inr (Current_question (sample_question 1))"
proof -
  have ne: "two_questions \<noteq> []" by (simp add: two_questions_def)
  have out: "fst (next_question two_questions (serve_all two_questions (butlast two_answers)) 0)
      = Inr (Current_question (sample_question 1))"
    unfolding serve_one by (simp add: next_question_def two_questions_def)
  from next_question_idempotent
         [of two_questions "serve_all two_questions (butlast two_answers)" 0 "butlast two_answers"
             sample_id] ne out
  show ?thesis by (simp add: prod_eq_iff)
qed

text \<open>
  C8. At most one \<open>submitAnswer\<close> call is in flight at a time: in every configuration that
  a run of the page reaches, at most one such call is pending, a pending call means that
  \<open>answerLoading\<close> is set, and while \<open>answerLoading\<close> is set no click on an answer button
  can happen, every button being disabled.
\<close>

theorem one_submit_in_flight:
  assumes "run initial_config es = Some c"
  shows "submit_calls_in_flight c \<le> 1
         \<and> (0 < submit_calls_in_flight c \<longrightarrow> answerLoading (page c))
         \<and> (answerLoading (page c) \<longrightarrow> (\<forall>score_key. fire c (Click score_key) = None))"
proof -
  from run_loading_matches[OF assms initial_loading_matches]
  have M: "loading_matches c" .
  from M submit_calls_le[of c] have "submit_calls_in_flight c \<le> 1"
    by (auto simp: loading_matches_def split: if_splits)
  moreover from M submit_calls_le[of c]
  have "0 < submit_calls_in_flight c \<longrightarrow> answerLoading (page c)"
    by (auto simp: loading_matches_def split: if_splits)
  moreover have "answerLoading (page c) \<longrightarrow> (\<forall>score_key. fire c (Click score_key) = None)"
    by (simp add: button_enabled_def)
  ultimately show ?thesis by blast
qed

theorem one_submit_in_flight_witness:
  "run initial_config (start_events @ [Click (ascii ''3'')]) = Some (submitting 0)
   \<and> submit_calls_in_flight (submitting 0) = 1
   \<and> answerLoading (page (submitting 0))
   \<and> fire (submitting 0) (Click (ascii ''4'')) = None"
proof -
  have r: "run initial_config (start_events @ [Click (ascii ''3'')]) = Some (submitting 0)"
    by (simp add: run_append run_start showing_def submitting_def handler_defs sample_question_def
        sample_id_def truthy_def ascii_def parse3_units)
  have n: "submit_calls_in_flight (submitting 0) = 1"
    by (simp add: submit_calls_in_flight_def submitting_def is_submit_call_def)
  from one_submit_in_flight[OF r] r n show ?thesis by simp
qed

text \<open>
  C9. Each of the four wrappers \<open>startAssessment\<close>, \<open>getNextQuestion\<close>, \<open>submitAnswer\<close> and
  \<open>getAssessmentGuidance\<close> throws its \<open>Error\<close> when the response is not ok, and returns a
  body only when \<open>fetch\<close> resolved with an ok response whose parsed body it is.
\<close>

theorem wrappers_throw_unless_ok:
  "(fetch_s (startAssessment_request b) = Inr res_s \<and> \<not> ok res_s \<longrightarrow>
      startAssessment fetch_s b = Inl (Error_obj (ascii ''Failed to start assessment'')))
   \<and> (startAssessment fetch_s b = Inr body_s \<longrightarrow>
      (\<exists>res. fetch_s (startAssessment_request b) = Inr res \<and> ok res \<and> json res = Inr body_s))
   \<and> (fetch_n (getNextQuestion_request a) = Inr res_n \<and> \<not> ok res_n \<longrightarrow>
      getNextQuestion fetch_n a = Inl (Error_obj (ascii ''Failed to fetch next question'')))
   \<and> (getNextQuestion fetch_n a = Inr body_n \<longrightarrow>
      (\<exists>res. fetch_n (getNextQuestion_request a) = Inr res \<and> ok res \<and> json res = Inr body_n))
   \<and> (fetch_a (submitAnswer_request a d) = Inr res_a \<and> \<not> ok res_a \<longrightarrow>
      submitAnswer fetch_a a d = Inl (Error_obj (ascii ''Failed to submit answer'')))
   \<and> (submitAnswer fetch_a a d = Inr body_a \<longrightarrow>
      (\<exists>res. fetch_a (submitAnswer_request a d) = Inr res \<and> ok res \<and> json res = Inr body_a))
   \<and> (fetch_g (getAssessmentGuidance_request a qid msg sec) = Inr res_g \<and> \<not> ok res_g \<longrightarrow>
      getAssessmentGuidance fetch_g a qid msg sec = Inl (Error_obj (ascii ''Failed to get guidance'')))
   \<and> (getAssessmentGuidance fetch_g a qid msg sec = Inr body_g \<longrightarrow>
      (\<exists>res. fetch_g (getAssessmentGuidance_request a qid msg sec) = Inr res \<and> ok res
             \<and> json res = Inr body_g))"
  unfolding startAssessment_def getNextQuestion_def submitAnswer_def getAssessmentGuidance_def
  by (intro conjI impI; (elim conjE)?; (simp add: settle_not_ok | erule settle_Inr))

theorem wrappers_throw_unless_ok_witness:
  "startAssessment (\<lambda>_. not_found) sample_profile = Inl (Error_obj (ascii ''Failed to start assessment''))
   \<and> getNextQuestion (\<lambda>_. not_found) sample_id = Inl (Error_obj (ascii ''Failed to fetch next question''))
   \<and> submitAnswer (\<lambda>_. not_found) sample_id \<lparr>section_id = [], question_id = [], score = Num 3\<rparr>
        = Inl (Error_obj (ascii ''Failed to submit answer''))
   \<and> getAssessmentGuidance (\<lambda>_. not_found :: js_string fetch_result) sample_id [] [] None
        = Inl (Error_obj (ascii ''Failed to get guidance''))
   \<and> getNextQuestion (\<lambda>_. replies (Completed True)) sample_id = Inr (Completed True)
   \<and> (\<exists>res. replies (Completed True) = Inr res \<and> ok res \<and> json res = Inr (Completed True))"
proof -
  let ?res = "\<lparr>ok = False, json = Inl (Error_obj (ascii ''Unexpected token''))\<rparr>"
  have ret: "getNextQuestion (\<lambda>_. replies (Completed True)) sample_id = Inr (Completed True)"
    by (simp add: getNextQuestion_def settle_def replies_def)
  note thrown = wrappers_throw_unless_ok
    [where fetch_s = "\<lambda>_. not_found" and res_s = ?res and fetch_n = "\<lambda>_. not_found" and res_n = ?res
       and fetch_a = "\<lambda>_. not_found" and res_a = ?res
       and fetch_g = "\<lambda>_. not_found :: js_string fetch_result" and res_g = ?res
       and b = sample_profile and a = sample_id and qid = "[]" and msg = "[]" and sec = None
       and d = "\<lparr>section_id = [], question_id = [], score = Num 3\<rparr>"
       and body_s = undefined and body_n = undefined and body_a = undefined and body_g = undefined]
  note returned = wrappers_throw_unless_ok
    [where fetch_s = "\<lambda>_. not_found" and res_s = ?res and res_n = ?res
       and fetch_a = "\<lambda>_. not_found" and res_a = ?res
       and fetch_g = "\<lambda>_. not_found :: js_string fetch_result" and res_g = ?res
       and b = sample_profile and qid = "[]" and msg = "[]" and sec = None
       and d = "\<lparr>section_id = [], question_id = [], score = Num 3\<rparr>"
       and body_s = undefined and body_a = undefined and body_g = undefined
       and fetch_n = "\<lambda>_. replies (Completed True)" and a = sample_id and body_n = "Completed True"]
  from thrown have T:
    "startAssessment (\<lambda>_. not_found) sample_profile = Inl (Error_obj (ascii ''Failed to start assessment''))
     \<and> getNextQuestion (\<lambda>_. not_found) sample_id = Inl (Error_obj (ascii ''Failed to fetch next question''))
     \<and> submitAnswer (\<lambda>_. not_found) sample_id \<lparr>section_id = [], question_id = [], score = Num 3\<rparr>
          = Inl (Error_obj (ascii ''Failed to submit answer''))
     \<and> getAssessmentGuidance (\<lambda>_. not_found :: js_string fetch_result) sample_id [] [] None
          = Inl (Error_obj (ascii ''Failed to get guidance''))"
    by (simp add: not_found_def)
  from returned ret
  have R: "\<exists>res. replies (Completed True) = Inr res \<and> ok res \<and> json res = Inr (Completed True)"
    by blast
  from T R ret show ?thesis by blast
qed

text \<open>
  C10. Every \<open>submitAnswer\<close> call comes from a click on an answer button, and it carries
  the \<open>section_id\<close> and \<open>question_id\<close> of the displayed question, which is the question
  that \<open>getNextQuestion\<close> returned last, and as score \<open>parseInt\<close> of one of the keys of
  that question's scoring rubric. No other event adds a \<open>submitAnswer\<close> call.
\<close>

theorem submitted_answer_targets_shown_question:
  assumes "run initial_config es = Some c"
  shows "(fire c (Click score_key) = Some c' \<longrightarrow>
           (\<exists>q a. last_question es = Some q \<and> questionData (page c) = Some (Question q)
              \<and> score_key \<in> fst ` set (scoring_rubric q) \<and> assessmentId (page c) = Some a
              \<and> tasks c' = Awaiting_submit a \<lparr>section_id = section_id q, question_id = question_id q,
                                               score = parseInt score_key\<rparr> # tasks c))
         \<and> (fire c e = Some c'' \<and> (\<forall>k. e \<noteq> Click k) \<longrightarrow>
              set (filter is_submit_call (tasks c'')) \<subseteq> set (filter is_submit_call (tasks c)))"
proof (intro conjI impI)
  assume click: "fire c (Click score_key) = Some c'"
  from run_session_ready[OF assms initial_session_ready] have R: "session_ready c" .
  from run_shows_last_question[OF assms] have L: "shows_last_question es c" .
  from click obtain q where q: "questionData (page c) = Some (Question q)"
    and en: "button_enabled (page c) score_key"
    by (auto split: if_splits option.splits next_reply.splits)
  from en q have sh: "showQuestions (page c)"
    by (cases "showQuestions (page c)") (simp_all add: button_enabled_def answer_buttons_def)
  from en q sh have key: "score_key \<in> fst ` set (scoring_rubric q)"
    by (simp add: button_enabled_def answer_buttons_def)
  from R sh obtain a where a: "assessmentId (page c) = Some a" "a \<noteq> []"
    by (auto simp: session_ready_def truthy_def split: option.splits)
  from L q have lq: "last_question es = Some q" by (simp add: shows_last_question_def)
  from click q en a have
    "tasks c' = Awaiting_submit a \<lparr>section_id = section_id q, question_id = question_id q,
                                   score = parseInt score_key\<rparr> # tasks c"
    by (auto simp: onClick_begin_def truthy_def)
  with lq q key a show "\<exists>q a. last_question es = Some q \<and> questionData (page c) = Some (Question q)
              \<and> score_key \<in> fst ` set (scoring_rubric q) \<and> assessmentId (page c) = Some a
              \<and> tasks c' = Awaiting_submit a \<lparr>section_id = section_id q, question_id = question_id q,
                                               score = parseInt score_key\<rparr> # tasks c"
    by blast
next
  assume "fire c e = Some c'' \<and> (\<forall>k. e \<noteq> Click k)"
  then show "set (filter is_submit_call (tasks c'')) \<subseteq> set (filter is_submit_call (tasks c))"
    using fire_no_new_submit by blast
qed

theorem submitted_answer_targets_shown_question_witness:
  "run initial_config start_events = Some (showing 0 (Some (Question (sample_question 0))))
   \<and> fire (showing 0 (Some (Question (sample_question 0)))) (Click (ascii ''3'')) = Some (submitting 0)
   \<and> last_question start_events = Some (sample_question 0)
   \<and> tasks (submitting 0)
       = [Awaiting_submit sample_id
            \<lparr>section_id = section_id (sample_question 0), question_id = question_id (sample_question 0),
             score = parseInt (ascii ''3'')\<rparr>]"
proof -
  have 1: "fire (showing 0 (Some (Question (sample_question 0)))) (Click (ascii ''3'')) = Some (submitting 0)"
    by (simp add: showing_def submitting_def handler_defs sample_question_def
        sample_id_def truthy_def ascii_def parse3_units)
  have 2: "tasks (showing 0 (Some (Question (sample_question 0)))) = []"
    by (simp add: showing_def)
  from submitted_answer_targets_shown_question
         [OF run_start, of "ascii ''3''" "submitting 0" Submit_form "submitting 0"] 1 2
  show ?thesis
    by (auto simp: run_start showing_def)
qed

end
